theory Spec2Isabelle
  imports Main "HOL-Library.Word"
begin

section \<open>The marking state of the C++ garbage collector\<close>

text \<open>
  This theory embeds \<^verbatim>\<open>src/heap/cppgc/marking-state.h\<close>: the class
  \<^verbatim>\<open>MarkingState\<close> with its constructor, the three \<^verbatim>\<open>MarkAndPush\<close> overloads,
  \<^verbatim>\<open>MarkNoPush\<close>, \<^verbatim>\<open>DynamicallyMarkAddress\<close>, the weak-reference operations and
  \<^verbatim>\<open>AccountMarkedBytes\<close>.

  Pointers and \<^verbatim>\<open>size_t\<close> are 64-bit words (the x64 configuration); \<open>+\<close> on them wraps
  around as the machine addition does. Function pointers are addresses as well.
  A \<^verbatim>\<open>HeapObjectHeader&\<close> is the address of the header; the header's contents live in
  a store shared by every marking task, so that marking through one reference is seen
  through every other.
\<close>

subsection \<open>Data\<close>

type_synonym Address = "64 word"
type_synonym size_t = "64 word"
type_synonym GCInfoIndex = "16 word"
type_synonym TraceCallback = "64 word"
type_synonym WeakCallback = "64 word"

text \<open>\<^verbatim>\<open>TraceDescriptor\<close> (include/cppgc/trace-trait.h): the trace unit.\<close>

record TraceDescriptor =
  base_object_payload :: Address
  callback :: TraceCallback

text \<open>\<^verbatim>\<open>Marker::WeakCallbackItem\<close>: the record pushed by \<^verbatim>\<open>RegisterWeakCallback\<close>.\<close>

record WeakCallbackItem =
  item_callback :: WeakCallback
  item_parameter :: Address

text \<open>
  Modelled from the spec: \<^verbatim>\<open>src/heap/cppgc/heap-object-header.h\<close> is not part of the
  sources at hand. The spec gives an object header a mark bit (atomic), an in-construction
  bit (plain), a free bit, a byte size and a type index.
\<close>

record HeapObjectHeader =
  mark_bit :: bool
  in_construction_bit :: bool
  free_bit :: bool
  size_field :: size_t
  type_index :: GCInfoIndex

text \<open>
  Modelled from the spec: \<^verbatim>\<open>src/heap/cppgc/heap-page.h\<close> is not part of the sources at
  hand. A region belongs to one heap, is a normal region or a single-object large region
  with a payload size, and knows the headers of the objects allocated in it.
\<close>

record BasePage =
  page_heap :: Address
  page_is_large :: bool
  page_payload_size :: size_t
  page_objects :: "Address list"

text \<open>
  Modelled from the spec: \<^verbatim>\<open>src/heap/cppgc/liveness-broker.h\<close> is not part of the
  sources at hand. The liveness broker is a stateless capability, created fresh for each
  invocation of a weak callback.
\<close>

datatype LivenessBroker = LivenessBroker

text \<open>
  What the code takes from its surroundings, none of it changed by marking: the build
  configuration (\<^verbatim>\<open>DEBUG\<close>), the constant
  \<^verbatim>\<open>GarbageCollectedMixin::kNotFullyConstructedObject\<close>, the size of a header,
  \<^verbatim>\<open>BasePage::FromPayload\<close> (the region owning an address) and the trace callback of
  \<^verbatim>\<open>GlobalGCInfoTable::GCInfoFromIndex\<close>.
\<close>

record Env =
  debug_build :: bool
  kNotFullyConstructedObject :: Address
  sizeof_HeapObjectHeader :: size_t
  BasePage_FromPayload :: "Address \<Rightarrow> BasePage"
  GCInfoFromIndex_trace :: "GCInfoIndex \<Rightarrow> TraceCallback"

text \<open>
  The state shared by all marking tasks: the contents of the object headers, and the
  calls made to weak callbacks (external code, whose invocation is recorded as an event,
  in order).
\<close>

record Store =
  headers :: "Address \<Rightarrow> HeapObjectHeader"
  invoked :: "(WeakCallback \<times> LivenessBroker \<times> Address) list"

text \<open>
  The class \<^verbatim>\<open>MarkingState\<close>. The fields are those of the source without the
  trailing underscore, so that \<open>marked_bytes\<close> is the accessor \<^verbatim>\<open>marked_bytes()\<close> too.
  The field \<open>heap\<close> exists in debug builds only, and is read in debug builds only. A
  worklist view is the sequence of the elements pushed through it.
\<close>

record MarkingState =
  heap :: Address
  marking_worklist :: "TraceDescriptor list"
  not_fully_constructed_worklist :: "Address list"
  weak_callback_worklist :: "WeakCallbackItem list"
  marked_bytes :: size_t

text \<open>
  How a call can end without returning: a check of the source fails in a debug build, or
  (last constructor) the address given to \<^verbatim>\<open>DynamicallyMarkAddress\<close> lies in no object
  known to its region, where the source has no defined behaviour.
\<close>

datatype failure =
  ObjectIsNull
  | CallbackIsNull
  | WrongHeap
  | FreeObject
  | ObjectInConstruction
  | NoObjectAtAddress

subsection \<open>The collaborators of the marking state\<close>

text \<open>
  Modelled from the spec: the macro \<^verbatim>\<open>DCHECK\<close> (src/base/logging.h) is not part of the
  sources at hand. Violations of preconditions are fatal protocol errors, checked only in
  diagnostic builds; production builds skip the checks.
\<close>

definition DCHECK :: "Env \<Rightarrow> failure \<Rightarrow> bool \<Rightarrow> failure + unit" where
  "DCHECK env f cond = (if debug_build env \<and> \<not> cond then Inl f else Inr ())"

text \<open>Sequencing of fallible steps: a fatal check ends the call.\<close>

definition and_then :: "failure + 'a \<Rightarrow> ('a \<Rightarrow> failure + 'b) \<Rightarrow> failure + 'b" where
  "and_then r k = (case r of Inl f \<Rightarrow> Inl f | Inr x \<Rightarrow> k x)"

text \<open>
  Modelled from the spec: the worklist (src/heap/cppgc/worklist.h) is not part of the
  sources at hand. A shared worklist holds one local segment per task; a view is bound to
  a task identifier and pushes into that task's segment; no element is lost.
\<close>

type_synonym 'a Worklist = "int \<Rightarrow> 'a list"

definition View :: "'a Worklist \<Rightarrow> int \<Rightarrow> 'a list" where
  "View worklist task_id = worklist task_id"

definition Push :: "'a list \<Rightarrow> 'a \<Rightarrow> 'a list" where
  "Push view x = view @ [x]"

text \<open>
  Modelled from the spec: the queries of \<^verbatim>\<open>HeapObjectHeader\<close>. \<^verbatim>\<open>TryMarkAtomic\<close> is the
  compare-and-set of the mark bit from 0 to 1; it returns whether this call performed the
  transition. An object is large when it lives in a single-object large region.
\<close>

definition IsMarked :: "HeapObjectHeader \<Rightarrow> bool" where
  "IsMarked h = mark_bit h"

definition IsInConstruction :: "HeapObjectHeader \<Rightarrow> bool" where
  "IsInConstruction h = in_construction_bit h"

definition IsFree :: "HeapObjectHeader \<Rightarrow> bool" where
  "IsFree h = free_bit h"

definition GetSize :: "HeapObjectHeader \<Rightarrow> size_t" where
  "GetSize h = size_field h"

definition GetGCInfoIndex :: "HeapObjectHeader \<Rightarrow> GCInfoIndex" where
  "GetGCInfoIndex h = type_index h"

definition IsLargeObject :: "Env \<Rightarrow> Address \<Rightarrow> bool" where
  "IsLargeObject env header = page_is_large (BasePage_FromPayload env header)"

definition PayloadSize :: "BasePage \<Rightarrow> size_t" where
  "PayloadSize page = page_payload_size page"

definition TryMarkAtomic :: "Store \<Rightarrow> Address \<Rightarrow> bool \<times> Store" where
  "TryMarkAtomic st header =
     (if mark_bit (headers st header) then (False, st)
      else (True, st\<lparr>headers := (headers st)(header := (headers st header)\<lparr>mark_bit := True\<rparr>)\<rparr>))"

text \<open>
  \<^verbatim>\<open>HeapObjectHeader::Payload\<close> and \<^verbatim>\<open>HeapObjectHeader::FromPayload\<close>: the payload
  follows the header.
\<close>

definition Payload :: "Env \<Rightarrow> Address \<Rightarrow> Address" where
  "Payload env header = header + sizeof_HeapObjectHeader env"

definition FromPayload :: "Env \<Rightarrow> Address \<Rightarrow> Address" where
  "FromPayload env payload = payload - sizeof_HeapObjectHeader env"

text \<open>
  Modelled from the spec: \<^verbatim>\<open>BasePage::ObjectHeaderFromInnerAddress\<close> is not part of the
  sources at hand. Given any interior address, the region resolves the header of the
  object containing it. The storage of an object starts at its header and extends over
  its size: the region's full payload size for an object in a large region, the header's
  size field otherwise.
\<close>

definition object_size :: "Env \<Rightarrow> Store \<Rightarrow> Address \<Rightarrow> size_t" where
  "object_size env st header =
     (if IsLargeObject env header then PayloadSize (BasePage_FromPayload env header)
      else GetSize (headers st header))"

definition contains_address :: "Env \<Rightarrow> Store \<Rightarrow> Address \<Rightarrow> Address \<Rightarrow> bool" where
  "contains_address env st address header =
     (unat header \<le> unat address \<and>
      unat address < unat header + unat (object_size env st header))"

definition ObjectHeaderFromInnerAddress ::
    "Env \<Rightarrow> Store \<Rightarrow> BasePage \<Rightarrow> Address \<Rightarrow> Address option" where
  "ObjectHeaderFromInnerAddress env st page address =
     find (contains_address env st address) (page_objects page)"

subsection \<open>The operations of \<^verbatim>\<open>MarkingState\<close>\<close>

text \<open>The constructor: three views bound to the task, and a byte counter of zero.\<close>

definition MarkingState_new ::
    "Address \<Rightarrow> TraceDescriptor Worklist \<Rightarrow> Address Worklist \<Rightarrow> WeakCallbackItem Worklist
      \<Rightarrow> int \<Rightarrow> MarkingState" where
  "MarkingState_new heap_base marking_wl not_fully_constructed_wl weak_callback_wl task_id =
     \<lparr>heap = heap_base,
      marking_worklist = View marking_wl task_id,
      not_fully_constructed_worklist = View not_fully_constructed_wl task_id,
      weak_callback_worklist = View weak_callback_wl task_id,
      marked_bytes = 0\<rparr>"

text \<open>\<^verbatim>\<open>bool MarkNoPush(HeapObjectHeader&)\<close>\<close>

definition MarkNoPush :: "Env \<Rightarrow> Store \<Rightarrow> MarkingState \<Rightarrow> Address \<Rightarrow> failure + (bool \<times> Store)" where
  "MarkNoPush env st ms header =
     and_then (DCHECK env WrongHeap
                 (heap ms = page_heap (BasePage_FromPayload env header))) (\<lambda>_.
     and_then (DCHECK env FreeObject (\<not> IsFree (headers st header))) (\<lambda>_.
     Inr (TryMarkAtomic st header)))"

text \<open>\<^verbatim>\<open>void MarkAndPush(HeapObjectHeader&, TraceDescriptor)\<close>\<close>

definition MarkAndPush_header ::
    "Env \<Rightarrow> Store \<Rightarrow> MarkingState \<Rightarrow> Address \<Rightarrow> TraceDescriptor
      \<Rightarrow> failure + (Store \<times> MarkingState)" where
  "MarkAndPush_header env st ms header desc =
     and_then (DCHECK env CallbackIsNull (callback desc \<noteq> 0)) (\<lambda>_.
     if IsInConstruction (headers st header)
     then Inr (st, ms\<lparr>not_fully_constructed_worklist :=
                        Push (not_fully_constructed_worklist ms) (Payload env header)\<rparr>)
     else and_then (MarkNoPush env st ms header) (\<lambda>(marked, st').
            if marked
            then Inr (st', ms\<lparr>marking_worklist := Push (marking_worklist ms) desc\<rparr>)
            else Inr (st', ms)))"

text \<open>\<^verbatim>\<open>void MarkAndPush(const void*, TraceDescriptor)\<close>\<close>

definition MarkAndPush_object ::
    "Env \<Rightarrow> Store \<Rightarrow> MarkingState \<Rightarrow> Address \<Rightarrow> TraceDescriptor
      \<Rightarrow> failure + (Store \<times> MarkingState)" where
  "MarkAndPush_object env st ms object desc =
     and_then (DCHECK env ObjectIsNull (object \<noteq> 0)) (\<lambda>_.
     if base_object_payload desc = kNotFullyConstructedObject env
     then Inr (st, ms\<lparr>not_fully_constructed_worklist :=
                        Push (not_fully_constructed_worklist ms) object\<rparr>)
     else MarkAndPush_header env st ms (FromPayload env (base_object_payload desc)) desc)"

text \<open>\<^verbatim>\<open>void DynamicallyMarkAddress(ConstAddress)\<close>\<close>

definition DynamicallyMarkAddress ::
    "Env \<Rightarrow> Store \<Rightarrow> MarkingState \<Rightarrow> Address \<Rightarrow> failure + (Store \<times> MarkingState)" where
  "DynamicallyMarkAddress env st ms address =
     (case ObjectHeaderFromInnerAddress env st (BasePage_FromPayload env address) address of
        None \<Rightarrow> Inl NoObjectAtAddress
      | Some header \<Rightarrow>
          and_then (DCHECK env ObjectInConstruction
                      (\<not> IsInConstruction (headers st header))) (\<lambda>_.
          and_then (MarkNoPush env st ms header) (\<lambda>(marked, st').
            if marked
            then Inr (st', ms\<lparr>marking_worklist :=
                        Push (marking_worklist ms)
                          \<lparr>base_object_payload = Payload env header,
                           callback = GCInfoFromIndex_trace env
                                        (GetGCInfoIndex (headers st' header))\<rparr>\<rparr>)
            else Inr (st', ms))))"

text \<open>\<^verbatim>\<open>void MarkAndPush(HeapObjectHeader&)\<close>\<close>

definition MarkAndPush_header_only ::
    "Env \<Rightarrow> Store \<Rightarrow> MarkingState \<Rightarrow> Address \<Rightarrow> failure + (Store \<times> MarkingState)" where
  "MarkAndPush_header_only env st ms header =
     MarkAndPush_header env st ms header
       \<lparr>base_object_payload = Payload env header,
        callback = GCInfoFromIndex_trace env (GetGCInfoIndex (headers st header))\<rparr>"

text \<open>\<^verbatim>\<open>void RegisterWeakCallback(WeakCallback, const void*)\<close>\<close>

definition RegisterWeakCallback :: "MarkingState \<Rightarrow> WeakCallback \<Rightarrow> Address \<Rightarrow> MarkingState" where
  "RegisterWeakCallback ms cb object =
     ms\<lparr>weak_callback_worklist :=
          Push (weak_callback_worklist ms) \<lparr>item_callback = cb, item_parameter = object\<rparr>\<rparr>"

text \<open>
  \<^verbatim>\<open>void RegisterWeakReferenceIfNeeded(const void*, TraceDescriptor, WeakCallback,
  const void*)\<close>. It reads the mark bit and writes nothing but the weak-callback view.
\<close>

definition RegisterWeakReferenceIfNeeded ::
    "Env \<Rightarrow> Store \<Rightarrow> MarkingState \<Rightarrow> Address \<Rightarrow> TraceDescriptor \<Rightarrow> WeakCallback \<Rightarrow> Address
      \<Rightarrow> MarkingState" where
  "RegisterWeakReferenceIfNeeded env st ms object desc weak_callback parameter =
     (if base_object_payload desc \<noteq> kNotFullyConstructedObject env \<and>
         IsMarked (headers st (FromPayload env (base_object_payload desc)))
      then ms
      else RegisterWeakCallback ms weak_callback parameter)"

text \<open>
  \<^verbatim>\<open>void InvokeWeakRootsCallbackIfNeeded(const void*, TraceDescriptor, WeakCallback,
  const void*)\<close>. The call of \<^verbatim>\<open>weak_callback\<close> with the broker of
  \<^verbatim>\<open>LivenessBrokerFactory::Create()\<close> is recorded in the store.
\<close>

definition InvokeWeakRootsCallbackIfNeeded ::
    "Env \<Rightarrow> Store \<Rightarrow> MarkingState \<Rightarrow> Address \<Rightarrow> TraceDescriptor \<Rightarrow> WeakCallback \<Rightarrow> Address
      \<Rightarrow> Store \<times> MarkingState" where
  "InvokeWeakRootsCallbackIfNeeded env st ms object desc weak_callback parameter =
     (if base_object_payload desc = kNotFullyConstructedObject env
      then (st, ms)
      else (st\<lparr>invoked := invoked st @ [(weak_callback, LivenessBroker, parameter)]\<rparr>, ms))"

text \<open>\<^verbatim>\<open>void AccountMarkedBytes(const HeapObjectHeader&)\<close>\<close>

definition AccountMarkedBytes :: "Env \<Rightarrow> Store \<Rightarrow> MarkingState \<Rightarrow> Address \<Rightarrow> MarkingState" where
  "AccountMarkedBytes env st ms header =
     ms\<lparr>marked_bytes :=
          marked_bytes ms +
          (if IsLargeObject env header
           then PayloadSize (BasePage_FromPayload env header)
           else GetSize (headers st header))\<rparr>"

subsection \<open>Clients of a marking state\<close>

text \<open>
  A marking task uses its \<^verbatim>\<open>MarkingState\<close> through a sequence of calls to the public
  operations. A call that fails a check of a debug build ends the task.
\<close>

datatype operation =
  Call_MarkAndPush_object Address TraceDescriptor
  | Call_MarkAndPush_header Address TraceDescriptor
  | Call_MarkAndPush_header_only Address
  | Call_MarkNoPush Address
  | Call_DynamicallyMarkAddress Address
  | Call_RegisterWeakReferenceIfNeeded Address TraceDescriptor WeakCallback Address
  | Call_RegisterWeakCallback WeakCallback Address
  | Call_InvokeWeakRootsCallbackIfNeeded Address TraceDescriptor WeakCallback Address
  | Call_AccountMarkedBytes Address

fun perform ::
    "Env \<Rightarrow> Store \<times> MarkingState \<Rightarrow> operation \<Rightarrow> failure + (Store \<times> MarkingState)" where
  "perform env (st, ms) (Call_MarkAndPush_object object desc) =
     MarkAndPush_object env st ms object desc"
| "perform env (st, ms) (Call_MarkAndPush_header header desc) =
     MarkAndPush_header env st ms header desc"
| "perform env (st, ms) (Call_MarkAndPush_header_only header) =
     MarkAndPush_header_only env st ms header"
| "perform env (st, ms) (Call_MarkNoPush header) =
     and_then (MarkNoPush env st ms header) (\<lambda>(marked, st'). Inr (st', ms))"
| "perform env (st, ms) (Call_DynamicallyMarkAddress address) =
     DynamicallyMarkAddress env st ms address"
| "perform env (st, ms) (Call_RegisterWeakReferenceIfNeeded object desc weak_callback parameter) =
     Inr (st, RegisterWeakReferenceIfNeeded env st ms object desc weak_callback parameter)"
| "perform env (st, ms) (Call_RegisterWeakCallback weak_callback object) =
     Inr (st, RegisterWeakCallback ms weak_callback object)"
| "perform env (st, ms) (Call_InvokeWeakRootsCallbackIfNeeded object desc weak_callback parameter) =
     Inr (InvokeWeakRootsCallbackIfNeeded env st ms object desc weak_callback parameter)"
| "perform env (st, ms) (Call_AccountMarkedBytes header) =
     Inr (st, AccountMarkedBytes env st ms header)"




text \<open>Two stores with the same size field in every header.\<close>

definition same_sizes :: "Store \<Rightarrow> Store \<Rightarrow> bool" where
  "same_sizes st st' = (\<forall>a. size_field (headers st' a) = size_field (headers st a))"

subsection \<open>Well-formed regions\<close>

text \<open>
  The objects known to a region occupy disjoint storage: of any two, one ends before the
  other starts.
\<close>

definition apart :: "Env \<Rightarrow> Store \<Rightarrow> Address \<Rightarrow> Address \<Rightarrow> bool" where
  "apart env st a b =
     (unat a + unat (object_size env st a) \<le> unat b \<or>
      unat b + unat (object_size env st b) \<le> unat a)"

fun non_overlapping :: "Env \<Rightarrow> Store \<Rightarrow> Address list \<Rightarrow> bool" where
  "non_overlapping env st [] = True"
| "non_overlapping env st (h # hs) = (list_all (apart env st h) hs \<and> non_overlapping env st hs)"





subsection \<open>A small heap to run the operations on\<close>

text \<open>
  One heap at \<open>0x100\<close> with a normal region holding four objects of 32 bytes (at
  \<open>0x1000\<close> unmarked, at \<open>0x1020\<close> in construction, at \<open>0x1040\<close> free, at \<open>0x1060\<close>
  marked), and a large region from \<open>0x40000\<close> with one object of \<open>0x30000\<close> bytes. The
  sentinel for objects not fully constructed is the null pointer, headers take 8 bytes.
\<close>

definition example_header :: HeapObjectHeader where
  "example_header =
     \<lparr>mark_bit = False, in_construction_bit = False, free_bit = False,
      size_field = 32, type_index = 3\<rparr>"

definition example_normal_page :: BasePage where
  "example_normal_page =
     \<lparr>page_heap = 0x100, page_is_large = False, page_payload_size = 0x1F000,
      page_objects = [0x1000, 0x1020, 0x1040, 0x1060]\<rparr>"

definition example_large_page :: BasePage where
  "example_large_page =
     \<lparr>page_heap = 0x100, page_is_large = True, page_payload_size = 0x30000,
      page_objects = [0x40000]\<rparr>"

definition example_env :: "bool \<Rightarrow> Env" where
  "example_env dbg =
     \<lparr>debug_build = dbg, kNotFullyConstructedObject = 0, sizeof_HeapObjectHeader = 8,
      BasePage_FromPayload =
        (\<lambda>a. if a < 0x40000 then example_normal_page else example_large_page),
      GCInfoFromIndex_trace = (\<lambda>i. 0x7000 + ucast i)\<rparr>"

definition example_store :: Store where
  "example_store =
     \<lparr>headers = (\<lambda>a. example_header)
        (0x1020 := example_header\<lparr>in_construction_bit := True, type_index := 4\<rparr>,
         0x1040 := example_header\<lparr>free_bit := True, type_index := 0\<rparr>,
         0x1060 := example_header\<lparr>mark_bit := True, type_index := 5\<rparr>,
         0x40000 := example_header\<lparr>size_field := 0, type_index := 6\<rparr>),
      invoked = []\<rparr>"

definition example_state :: MarkingState where
  "example_state = MarkingState_new 0x100 (\<lambda>_. []) (\<lambda>_. []) (\<lambda>_. []) 0"

section \<open>Properties\<close>

subsection \<open>The operations, case by case\<close>

lemmas header_queries =
  IsMarked_def IsInConstruction_def IsFree_def GetSize_def GetGCInfoIndex_def
  IsLargeObject_def PayloadSize_def

lemmas example_defs =
  example_header_def example_normal_page_def example_large_page_def example_env_def
  example_store_def example_state_def MarkingState_new_def View_def

lemma MarkNoPush_cases:
  "MarkNoPush env st ms header =
     (if debug_build env \<and> heap ms \<noteq> page_heap (BasePage_FromPayload env header)
      then Inl WrongHeap
      else if debug_build env \<and> IsFree (headers st header) then Inl FreeObject
      else Inr (TryMarkAtomic st header))"
  by (simp add: MarkNoPush_def DCHECK_def and_then_def)

lemma MarkAndPush_header_cases:
  "MarkAndPush_header env st ms header desc =
     (if debug_build env \<and> callback desc = 0 then Inl CallbackIsNull
      else if IsInConstruction (headers st header)
      then Inr (st, ms\<lparr>not_fully_constructed_worklist :=
                        not_fully_constructed_worklist ms @ [Payload env header]\<rparr>)
      else if debug_build env \<and> heap ms \<noteq> page_heap (BasePage_FromPayload env header)
      then Inl WrongHeap
      else if debug_build env \<and> IsFree (headers st header) then Inl FreeObject
      else if IsMarked (headers st header) then Inr (st, ms)
      else Inr (st\<lparr>headers := (headers st)(header := (headers st header)\<lparr>mark_bit := True\<rparr>)\<rparr>,
                ms\<lparr>marking_worklist := marking_worklist ms @ [desc]\<rparr>))"
  by (simp add: MarkAndPush_header_def MarkNoPush_cases DCHECK_def and_then_def
      TryMarkAtomic_def IsMarked_def Push_def)

subsection \<open>Accounting of marked bytes\<close>

text \<open>
  C6. For every header, \<^verbatim>\<open>AccountMarkedBytes\<close> adds to the marked-byte counter exactly
  the full payload size of the owning large region when the object is a large object, and
  exactly the size field of the header otherwise. The addition is that of \<^verbatim>\<open>size_t\<close>
  (modulo \<open>2 ^ 64\<close>). The call changes no other field of the marking state, and it has no
  other result: it returns no value and does not write to the store.
\<close>

theorem AccountMarkedBytes_adds_object_size:
  "marked_bytes (AccountMarkedBytes env st ms header) =
     marked_bytes ms +
       (if IsLargeObject env header then PayloadSize (BasePage_FromPayload env header)
        else GetSize (headers st header)) \<and>
   unat (marked_bytes (AccountMarkedBytes env st ms header)) =
     (unat (marked_bytes ms) +
       unat (if IsLargeObject env header then PayloadSize (BasePage_FromPayload env header)
             else GetSize (headers st header))) mod 2 ^ 64 \<and>
   (AccountMarkedBytes env st ms header)\<lparr>marked_bytes := marked_bytes ms\<rparr> = ms"
  by (simp add: AccountMarkedBytes_def unat_word_ariths)

theorem AccountMarkedBytes_adds_object_size_witness:
  "marked_bytes (AccountMarkedBytes (example_env False) example_store example_state 0x1000) = 32 \<and>
   marked_bytes (AccountMarkedBytes (example_env False) example_store example_state 0x40000)
     = 0x30000"
  using AccountMarkedBytes_adds_object_size
          [of "example_env False" example_store example_state "0x1000"]
        AccountMarkedBytes_adds_object_size
          [of "example_env False" example_store example_state "0x40000"]
  by (simp add: header_queries example_defs)

subsection \<open>Marking and pushing through a header\<close>

text \<open>
  C1. For every header whose in-construction bit and free bit are clear,
  \<^verbatim>\<open>MarkAndPush(header, desc)\<close> pushes the trace unit onto the trace-unit worklist if and
  only if this call performed the transition of the mark bit from 0 to 1, that is, if
  and only if \<^verbatim>\<open>MarkNoPush\<close> returned true. When the header was already marked, the
  call changes neither the store (so not the mark bit) nor any worklist; in particular a
  second call on the same header pushes nothing, whether made through this marking state
  or through that of another task. The call is fatal only in a debug build, and only for
  a null callback or a header of another heap.
\<close>

theorem MarkAndPush_header_pushes_iff_marked_now:
  assumes "\<not> IsInConstruction (headers st header)" and "\<not> IsFree (headers st header)"
  shows "case MarkAndPush_header env st ms header desc of
           Inl f \<Rightarrow> debug_build env \<and>
             (callback desc = 0 \<or> heap ms \<noteq> page_heap (BasePage_FromPayload env header))
         | Inr (st', ms') \<Rightarrow>
             MarkNoPush env st ms header = Inr (\<not> IsMarked (headers st header), st') \<and>
             (marking_worklist ms' = Push (marking_worklist ms) desc)
               = (\<not> IsMarked (headers st header)) \<and>
             (if IsMarked (headers st header) then st' = st \<and> ms' = ms
              else IsMarked (headers st' header) \<and>
                   ms' = ms\<lparr>marking_worklist := Push (marking_worklist ms) desc\<rparr>) \<and>
             MarkAndPush_header env st' ms' header desc = Inr (st', ms') \<and>
             (\<forall>ms2 desc2.
                case MarkAndPush_header env st' ms2 header desc2 of
                  Inl f \<Rightarrow> debug_build env \<and>
                    (callback desc2 = 0 \<or>
                     heap ms2 \<noteq> page_heap (BasePage_FromPayload env header))
                | Inr s2 \<Rightarrow> s2 = (st', ms2))"
  using assms
  by (simp add: MarkAndPush_header_cases MarkNoPush_cases TryMarkAtomic_def Push_def
      header_queries)

theorem MarkAndPush_header_pushes_iff_marked_now_witness:
  "\<not> IsInConstruction (headers example_store 0x1000) \<and>
   \<not> IsFree (headers example_store 0x1000) \<and>
   (case MarkAndPush_header (example_env True) example_store example_state 0x1000
           \<lparr>base_object_payload = 0x1008, callback = 0x7003\<rparr> of
      Inl f \<Rightarrow> False
    | Inr (st', ms') \<Rightarrow>
        marking_worklist ms' = [\<lparr>base_object_payload = 0x1008, callback = 0x7003\<rparr>] \<and>
        IsMarked (headers st' 0x1000) \<and>
        MarkAndPush_header (example_env True) st' ms' 0x1000
          \<lparr>base_object_payload = 0x1008, callback = 0x7003\<rparr> = Inr (st', ms')) \<and>
   IsMarked (headers example_store 0x1060) \<and>
   MarkAndPush_header (example_env True) example_store example_state 0x1060
       \<lparr>base_object_payload = 0x1068, callback = 0x7005\<rparr>
     = Inr (example_store, example_state)"
proof -
  have h1: "\<not> IsInConstruction (headers example_store 0x1000)"
    by (simp add: header_queries example_defs)
  have h2: "\<not> IsFree (headers example_store 0x1000)"
    by (simp add: header_queries example_defs)
  from MarkAndPush_header_pushes_iff_marked_now
         [OF h1 h2, where env = "example_env True" and ms = example_state
      and desc = "\<lparr>base_object_payload = 0x1008, callback = 0x7003\<rparr>"] h1 h2
  show ?thesis
    by (simp add: MarkAndPush_header_cases header_queries example_defs Push_def)
qed

text \<open>
  C2. For every header whose in-construction bit is set, \<^verbatim>\<open>MarkAndPush(header, desc)\<close>
  pushes the payload address of the object onto the worklist of objects not fully
  constructed, pushes nothing onto the trace-unit worklist, and does not write to the
  store: \<^verbatim>\<open>TryMarkAtomic\<close> is not attempted, the mark bit keeps its value, and an unset
  mark bit stays unset. The call is fatal only in a debug build with a null callback.
\<close>

theorem MarkAndPush_header_defers_in_construction:
  assumes "IsInConstruction (headers st header)"
  shows "case MarkAndPush_header env st ms header desc of
           Inl f \<Rightarrow> debug_build env \<and> callback desc = 0 \<and> f = CallbackIsNull
         | Inr (st', ms') \<Rightarrow>
             not_fully_constructed_worklist ms' =
               Push (not_fully_constructed_worklist ms) (Payload env header) \<and>
             marking_worklist ms' = marking_worklist ms \<and>
             ms' = ms\<lparr>not_fully_constructed_worklist := not_fully_constructed_worklist ms'\<rparr> \<and>
             st' = st \<and>
             IsMarked (headers st' header) = IsMarked (headers st header) \<and>
             (\<not> IsMarked (headers st header) \<longrightarrow> \<not> IsMarked (headers st' header))"
  using assms by (simp add: MarkAndPush_header_cases Push_def)

theorem MarkAndPush_header_defers_in_construction_witness:
  "IsInConstruction (headers example_store 0x1020) \<and>
   MarkAndPush_header (example_env True) example_store example_state 0x1020
       \<lparr>base_object_payload = 0x1028, callback = 0x7004\<rparr>
     = Inr (example_store, example_state\<lparr>not_fully_constructed_worklist := [0x1028]\<rparr>) \<and>
   \<not> IsMarked (headers example_store 0x1020)"
proof -
  have h: "IsInConstruction (headers example_store 0x1020)"
    by (simp add: header_queries example_defs)
  from MarkAndPush_header_defers_in_construction [OF h, where env = "example_env True" and ms = example_state
      and desc = "\<lparr>base_object_payload = 0x1028, callback = 0x7004\<rparr>"] h
  show ?thesis
    by (simp add: MarkAndPush_header_cases header_queries example_defs Payload_def)
qed

subsection \<open>Free objects\<close>

text \<open>
  C3, as the claim states it, is false: in a production build \<^verbatim>\<open>MarkNoPush\<close> on a free,
  unmarked header sets the mark bit and returns true, since the check is compiled out.
\<close>

theorem MarkNoPush_free_header_counterexample:
  "IsFree (headers example_store 0x1040) \<and>
   \<not> IsMarked (headers example_store 0x1040) \<and>
   MarkNoPush (example_env False) example_store example_state 0x1040 =
     Inr (True, example_store\<lparr>headers := (headers example_store)
            (0x1040 := (headers example_store 0x1040)\<lparr>mark_bit := True\<rparr>)\<rparr>) \<and>
   IsMarked (headers (example_store\<lparr>headers := (headers example_store)
            (0x1040 := (headers example_store 0x1040)\<lparr>mark_bit := True\<rparr>)\<rparr>) 0x1040)"
  by (simp add: MarkNoPush_cases TryMarkAtomic_def header_queries example_defs)

text \<open>
  C3, amended. For every header whose free bit is set: in a debug build \<^verbatim>\<open>MarkNoPush\<close>
  is fatal before \<^verbatim>\<open>TryMarkAtomic\<close> is reached, so that no store with a changed mark bit
  results, and so is every \<^verbatim>\<open>MarkAndPush(header, desc)\<close> that reaches it (the header not
  in construction); in a production build the check is skipped and \<^verbatim>\<open>MarkNoPush\<close> marks
  the free header as it marks any other: it returns whether the mark bit was clear, and
  sets it.
\<close>

theorem MarkNoPush_free_header:
  assumes "IsFree (headers st header)"
  shows "(debug_build env \<longrightarrow>
            MarkNoPush env st ms header =
              Inl (if heap ms = page_heap (BasePage_FromPayload env header)
                   then FreeObject else WrongHeap) \<and>
            (\<not> IsInConstruction (headers st header) \<longrightarrow>
               (\<exists>f. MarkAndPush_header env st ms header desc = Inl f))) \<and>
         (\<not> debug_build env \<longrightarrow>
            MarkNoPush env st ms header =
              Inr (\<not> IsMarked (headers st header),
                   if IsMarked (headers st header) then st
                   else st\<lparr>headers :=
                          (headers st)(header := (headers st header)\<lparr>mark_bit := True\<rparr>)\<rparr>))"
  using assms
  by (simp add: MarkAndPush_header_cases MarkNoPush_cases TryMarkAtomic_def IsMarked_def)

theorem MarkNoPush_free_header_witness:
  "IsFree (headers example_store 0x1040) \<and>
   debug_build (example_env True) \<and>
   MarkNoPush (example_env True) example_store example_state 0x1040 = Inl FreeObject \<and>
   MarkAndPush_header (example_env True) example_store example_state 0x1040
       \<lparr>base_object_payload = 0x1048, callback = 0x7000\<rparr> = Inl FreeObject \<and>
   \<not> debug_build (example_env False) \<and>
   MarkNoPush (example_env False) example_store example_state 0x1040 =
     Inr (True, example_store\<lparr>headers := (headers example_store)
            (0x1040 := (headers example_store 0x1040)\<lparr>mark_bit := True\<rparr>)\<rparr>)"
proof -
  have h: "IsFree (headers example_store 0x1040)"
    by (simp add: header_queries example_defs)
  from MarkNoPush_free_header [OF h, where env = "example_env True" and ms = example_state
         and desc = "\<lparr>base_object_payload = 0x1048, callback = 0x7000\<rparr>"]
       MarkNoPush_free_header [OF h, where env = "example_env False" and ms = example_state
         and desc = "\<lparr>base_object_payload = 0x1048, callback = 0x7000\<rparr>"] h
  show ?thesis
    by (simp add: MarkAndPush_header_cases header_queries example_defs)
qed

subsection \<open>Weak references and weak roots\<close>

text \<open>
  C4. \<^verbatim>\<open>RegisterWeakReferenceIfNeeded\<close> leaves the marking state as it is (no weak
  callback registered, every worklist unchanged) exactly when the base object payload of
  the trace descriptor is not the sentinel for objects not fully constructed and the
  header of that payload is marked. In every other case it appends exactly one record of
  the callback and its parameter to the weak-callback worklist, and changes nothing else.
\<close>

theorem RegisterWeakReferenceIfNeeded_registers_unless_marked:
  "(RegisterWeakReferenceIfNeeded env st ms object desc weak_callback parameter = ms)
     = (base_object_payload desc \<noteq> kNotFullyConstructedObject env \<and>
        IsMarked (headers st (FromPayload env (base_object_payload desc)))) \<and>
   (\<not> (base_object_payload desc \<noteq> kNotFullyConstructedObject env \<and>
        IsMarked (headers st (FromPayload env (base_object_payload desc)))) \<longrightarrow>
      RegisterWeakReferenceIfNeeded env st ms object desc weak_callback parameter
        = ms\<lparr>weak_callback_worklist := weak_callback_worklist ms @
               [\<lparr>item_callback = weak_callback, item_parameter = parameter\<rparr>]\<rparr>)"
proof -
  have "weak_callback_worklist (RegisterWeakCallback ms weak_callback parameter)
          \<noteq> weak_callback_worklist ms"
    by (simp add: RegisterWeakCallback_def Push_def)
  then have "RegisterWeakCallback ms weak_callback parameter \<noteq> ms"
    by auto
  then show ?thesis
    by (simp add: RegisterWeakReferenceIfNeeded_def) (simp add: RegisterWeakCallback_def Push_def)
qed

theorem RegisterWeakReferenceIfNeeded_registers_unless_marked_witness:
  "RegisterWeakReferenceIfNeeded (example_env True) example_store example_state 0x5000
       \<lparr>base_object_payload = 0x1068, callback = 0x7005\<rparr> 0x9000 0x5000 = example_state \<and>
   RegisterWeakReferenceIfNeeded (example_env True) example_store example_state 0x5000
       \<lparr>base_object_payload = 0x1008, callback = 0x7003\<rparr> 0x9000 0x5000
     = example_state\<lparr>weak_callback_worklist :=
         [\<lparr>item_callback = 0x9000, item_parameter = 0x5000\<rparr>]\<rparr> \<and>
   RegisterWeakReferenceIfNeeded (example_env True) example_store example_state 0x5000
       \<lparr>base_object_payload = 0, callback = 0x7003\<rparr> 0x9000 0x5000
     = example_state\<lparr>weak_callback_worklist :=
         [\<lparr>item_callback = 0x9000, item_parameter = 0x5000\<rparr>]\<rparr>"
  using RegisterWeakReferenceIfNeeded_registers_unless_marked
          [where env = "example_env True" and st = example_store and ms = example_state
             and object = "0x5000" and weak_callback = "0x9000" and parameter = "0x5000"
             and desc = "\<lparr>base_object_payload = 0x1068, callback = 0x7005\<rparr>"]
        RegisterWeakReferenceIfNeeded_registers_unless_marked
          [where env = "example_env True" and st = example_store and ms = example_state
             and object = "0x5000" and weak_callback = "0x9000" and parameter = "0x5000"
             and desc = "\<lparr>base_object_payload = 0x1008, callback = 0x7003\<rparr>"]
        RegisterWeakReferenceIfNeeded_registers_unless_marked
          [where env = "example_env True" and st = example_store and ms = example_state
             and object = "0x5000" and weak_callback = "0x9000" and parameter = "0x5000"
             and desc = "\<lparr>base_object_payload = 0, callback = 0x7003\<rparr>"]
  by (simp add: header_queries example_defs FromPayload_def)

text \<open>
  C5. \<^verbatim>\<open>InvokeWeakRootsCallbackIfNeeded\<close> never defers. When the base object payload of
  the trace descriptor is the sentinel for objects not fully constructed it does nothing:
  no callback is invoked and nothing is registered. Otherwise it invokes the supplied
  callback once, at once, with a fresh liveness broker and the parameter. In both cases
  the marking state, and with it every worklist, is unchanged, and no header is written.
\<close>

theorem InvokeWeakRootsCallbackIfNeeded_invokes_at_once:
  "InvokeWeakRootsCallbackIfNeeded env st ms object desc weak_callback parameter =
     (if base_object_payload desc = kNotFullyConstructedObject env then (st, ms)
      else (st\<lparr>invoked := invoked st @ [(weak_callback, LivenessBroker, parameter)]\<rparr>, ms)) \<and>
   snd (InvokeWeakRootsCallbackIfNeeded env st ms object desc weak_callback parameter) = ms \<and>
   headers (fst (InvokeWeakRootsCallbackIfNeeded env st ms object desc weak_callback parameter))
     = headers st"
  by (simp add: InvokeWeakRootsCallbackIfNeeded_def)

theorem InvokeWeakRootsCallbackIfNeeded_invokes_at_once_witness:
  "InvokeWeakRootsCallbackIfNeeded (example_env True) example_store example_state 0x5000
       \<lparr>base_object_payload = 0, callback = 0x7003\<rparr> 0x9000 0x5000
     = (example_store, example_state) \<and>
   InvokeWeakRootsCallbackIfNeeded (example_env True) example_store example_state 0x5000
       \<lparr>base_object_payload = 0x1008, callback = 0x7003\<rparr> 0x9000 0x5000
     = (example_store\<lparr>invoked := [(0x9000, LivenessBroker, 0x5000)]\<rparr>, example_state)"
  using InvokeWeakRootsCallbackIfNeeded_invokes_at_once
          [where env = "example_env True" and st = example_store and ms = example_state
             and object = "0x5000" and weak_callback = "0x9000" and parameter = "0x5000"
             and desc = "\<lparr>base_object_payload = 0, callback = 0x7003\<rparr>"]
        InvokeWeakRootsCallbackIfNeeded_invokes_at_once
          [where env = "example_env True" and st = example_store and ms = example_state
             and object = "0x5000" and weak_callback = "0x9000" and parameter = "0x5000"
             and desc = "\<lparr>base_object_payload = 0x1008, callback = 0x7003\<rparr>"]
  by (simp add: example_defs)

subsection \<open>Marking and pushing through an address\<close>

text \<open>
  C7, as the claim states it, is false: the test for the sentinel is made on the base
  object payload of the trace descriptor, not on the object address. A call with an
  object address that is not the sentinel and a trace descriptor whose base object payload
  is the sentinel pushes the object address onto the worklist of objects not fully
  constructed, where the header-based overload on the header resolved from that payload
  does something else. And a call whose object address is the sentinel, with a trace
  descriptor of a real object, marks that object and pushes the trace unit in a production
  build, and pushes nothing onto the worklist of objects not fully constructed.
\<close>

theorem MarkAndPush_object_counterexample:
  "(0x2000 :: Address) \<noteq> kNotFullyConstructedObject (example_env False) \<and>
   MarkAndPush_object (example_env False) example_store example_state 0x2000
       \<lparr>base_object_payload = 0, callback = 0x7003\<rparr>
     = Inr (example_store, example_state\<lparr>not_fully_constructed_worklist := [0x2000]\<rparr>) \<and>
   MarkAndPush_object (example_env False) example_store example_state 0x2000
       \<lparr>base_object_payload = 0, callback = 0x7003\<rparr>
     \<noteq> MarkAndPush_header (example_env False) example_store example_state
         (FromPayload (example_env False) 0) \<lparr>base_object_payload = 0, callback = 0x7003\<rparr> \<and>
   (0 :: Address) = kNotFullyConstructedObject (example_env False) \<and>
   \<not> IsMarked (headers example_store 0x1000) \<and>
   MarkAndPush_object (example_env False) example_store example_state 0
       \<lparr>base_object_payload = 0x1008, callback = 0x7003\<rparr>
     = Inr (example_store\<lparr>headers := (headers example_store)
              (0x1000 := (headers example_store 0x1000)\<lparr>mark_bit := True\<rparr>)\<rparr>,
            example_state\<lparr>marking_worklist :=
              [\<lparr>base_object_payload = 0x1008, callback = 0x7003\<rparr>]\<rparr>) \<and>
   not_fully_constructed_worklist (example_state\<lparr>marking_worklist :=
              [\<lparr>base_object_payload = 0x1008, callback = 0x7003\<rparr>]\<rparr>) = []"
  by (simp add: MarkAndPush_object_def MarkAndPush_header_cases DCHECK_def and_then_def Push_def
      FromPayload_def header_queries example_defs)

text \<open>
  C7, amended. In \<^verbatim>\<open>MarkAndPush(object, desc)\<close>: whenever the base object payload of the
  trace descriptor equals the sentinel for objects not fully constructed, the call pushes
  the object address onto the worklist of objects not fully constructed and returns, with
  the store (every header, every mark bit) and the trace-unit worklist unchanged; for every
  other base object payload it resolves the header from that payload and behaves exactly
  like the header-based overload. In a debug build a null object address is fatal before
  either.
\<close>

theorem MarkAndPush_object_tests_base_object_payload:
  "MarkAndPush_object env st ms object desc =
     (if debug_build env \<and> object = 0 then Inl ObjectIsNull
      else if base_object_payload desc = kNotFullyConstructedObject env
      then Inr (st, ms\<lparr>not_fully_constructed_worklist :=
                        not_fully_constructed_worklist ms @ [object]\<rparr>)
      else MarkAndPush_header env st ms (FromPayload env (base_object_payload desc)) desc)"
  by (simp add: MarkAndPush_object_def DCHECK_def and_then_def Push_def)

theorem MarkAndPush_object_tests_base_object_payload_witness:
  "MarkAndPush_object (example_env True) example_store example_state 0x2000
       \<lparr>base_object_payload = 0, callback = 0x7003\<rparr>
     = Inr (example_store, example_state\<lparr>not_fully_constructed_worklist := [0x2000]\<rparr>) \<and>
   MarkAndPush_object (example_env True) example_store example_state 0x1008
       \<lparr>base_object_payload = 0x1008, callback = 0x7003\<rparr>
     = MarkAndPush_header (example_env True) example_store example_state 0x1000
         \<lparr>base_object_payload = 0x1008, callback = 0x7003\<rparr> \<and>
   MarkAndPush_object (example_env True) example_store example_state 0
       \<lparr>base_object_payload = 0x1008, callback = 0x7003\<rparr> = Inl ObjectIsNull"
  using MarkAndPush_object_tests_base_object_payload
          [where env = "example_env True" and st = example_store and ms = example_state
             and object = "0x2000"
             and desc = "\<lparr>base_object_payload = 0, callback = 0x7003\<rparr>"]
        MarkAndPush_object_tests_base_object_payload
          [where env = "example_env True" and st = example_store and ms = example_state
             and object = "0x1008"
             and desc = "\<lparr>base_object_payload = 0x1008, callback = 0x7003\<rparr>"]
        MarkAndPush_object_tests_base_object_payload
          [where env = "example_env True" and st = example_store and ms = example_state
             and object = "0"
             and desc = "\<lparr>base_object_payload = 0x1008, callback = 0x7003\<rparr>"]
  by (simp add: example_defs FromPayload_def)

subsection \<open>Conservative marking of an interior address\<close>

lemma apart_excludes:
  assumes "apart env st h h'" and "contains_address env st address h"
  shows "\<not> contains_address env st address h'"
  using assms by (auto simp: apart_def contains_address_def)

lemma apart_sym: "apart env st a b = apart env st b a"
  by (auto simp: apart_def)

lemma find_containing_header:
  assumes "non_overlapping env st hs" and "header \<in> set hs"
      and "contains_address env st address header"
  shows "find (contains_address env st address) hs = Some header"
  using assms
proof (induction hs)
  case Nil
  then show ?case by simp
next
  case (Cons h hs)
  show ?case
  proof (cases "h = header")
    case True
    with Cons.prems show ?thesis by simp
  next
    case False
    with Cons.prems have mem: "header \<in> set hs" by simp
    from Cons.prems have "list_all (apart env st h) hs" by simp
    with mem have "apart env st h header" by (simp add: list_all_iff)
    then have "apart env st header h" by (simp add: apart_sym)
    then have "\<not> contains_address env st address h"
      using Cons.prems(3) by (rule apart_excludes)
    moreover from Cons.prems have "non_overlapping env st hs" by simp
    ultimately show ?thesis
      using Cons.IH mem Cons.prems(3) by simp
  qed
qed

lemma DynamicallyMarkAddress_cases:
  assumes "ObjectHeaderFromInnerAddress env st (BasePage_FromPayload env address) address
             = Some header"
  shows "DynamicallyMarkAddress env st ms address =
     (if debug_build env \<and> IsInConstruction (headers st header) then Inl ObjectInConstruction
      else if debug_build env \<and> heap ms \<noteq> page_heap (BasePage_FromPayload env header)
      then Inl WrongHeap
      else if debug_build env \<and> IsFree (headers st header) then Inl FreeObject
      else if IsMarked (headers st header) then Inr (st, ms)
      else Inr (st\<lparr>headers := (headers st)(header := (headers st header)\<lparr>mark_bit := True\<rparr>)\<rparr>,
                ms\<lparr>marking_worklist := marking_worklist ms @
                     [\<lparr>base_object_payload = Payload env header,
                       callback = GCInfoFromIndex_trace env
                                    (GetGCInfoIndex (headers st header))\<rparr>]\<rparr>))"
  using assms
  by (simp add: DynamicallyMarkAddress_def MarkNoPush_cases DCHECK_def and_then_def
      TryMarkAtomic_def IsMarked_def Push_def GetGCInfoIndex_def)

text \<open>
  C8. For every interior address strictly inside the storage of an object known to the
  region of that address (the objects of the region occupying disjoint storage),
  \<^verbatim>\<open>DynamicallyMarkAddress\<close> resolves the header of that same object. It requires the
  object not to be in construction (a fatal check in a debug build), attempts the atomic
  mark through \<^verbatim>\<open>MarkNoPush\<close>, and exactly when this call performed the transition from
  0 to 1 it pushes one trace unit: the payload of the resolved header, with the callback of
  the type-info table at the header's own type index. On a marked object it changes
  nothing.
\<close>

theorem DynamicallyMarkAddress_marks_containing_object:
  assumes "header \<in> set (page_objects (BasePage_FromPayload env address))"
      and "non_overlapping env st (page_objects (BasePage_FromPayload env address))"
      and "unat header < unat address"
      and "unat address < unat header + unat (object_size env st header)"
  shows "ObjectHeaderFromInnerAddress env st (BasePage_FromPayload env address) address
           = Some header \<and>
         DynamicallyMarkAddress env st ms address =
           (if debug_build env \<and> IsInConstruction (headers st header)
            then Inl ObjectInConstruction
            else case MarkNoPush env st ms header of
                   Inl f \<Rightarrow> Inl f
                 | Inr (marked, st') \<Rightarrow>
                     Inr (st',
                          if marked
                          then ms\<lparr>marking_worklist := marking_worklist ms @
                                 [\<lparr>base_object_payload = Payload env header,
                                   callback = GCInfoFromIndex_trace env
                                                (GetGCInfoIndex (headers st header))\<rparr>]\<rparr>
                          else ms)) \<and>
         (\<not> IsInConstruction (headers st header) \<longrightarrow>
          \<not> IsFree (headers st header) \<longrightarrow>
          heap ms = page_heap (BasePage_FromPayload env header) \<longrightarrow>
            MarkNoPush env st ms header = Inr (TryMarkAtomic st header) \<and>
            fst (TryMarkAtomic st header) = (\<not> IsMarked (headers st header)) \<and>
            DynamicallyMarkAddress env st ms address =
              (if IsMarked (headers st header) then Inr (st, ms)
               else Inr (st\<lparr>headers :=
                               (headers st)(header := (headers st header)\<lparr>mark_bit := True\<rparr>)\<rparr>,
                         ms\<lparr>marking_worklist := marking_worklist ms @
                              [\<lparr>base_object_payload = Payload env header,
                                callback = GCInfoFromIndex_trace env
                                             (GetGCInfoIndex (headers st header))\<rparr>]\<rparr>)))"
proof -
  from assms(3,4) have "contains_address env st address header"
    by (simp add: contains_address_def)
  with assms(1,2)
  have resolved: "ObjectHeaderFromInnerAddress env st (BasePage_FromPayload env address) address
                    = Some header"
    unfolding ObjectHeaderFromInnerAddress_def by (intro find_containing_header)
  show ?thesis
    using resolved
    by (simp add: DynamicallyMarkAddress_cases [OF resolved] MarkNoPush_cases
        TryMarkAtomic_def IsMarked_def)
qed

theorem DynamicallyMarkAddress_marks_containing_object_witness:
  "0x1000 \<in> set (page_objects (BasePage_FromPayload (example_env True) 0x101F)) \<and>
   non_overlapping (example_env True) example_store
     (page_objects (BasePage_FromPayload (example_env True) 0x101F)) \<and>
   unat (0x1000 :: Address) < unat (0x101F :: Address) \<and>
   unat (0x101F :: Address) < unat (0x1000 :: Address)
      + unat (object_size (example_env True) example_store 0x1000) \<and>
   ObjectHeaderFromInnerAddress (example_env True) example_store
      (BasePage_FromPayload (example_env True) 0x101F) 0x101F = Some 0x1000 \<and>
   DynamicallyMarkAddress (example_env True) example_store example_state 0x101F =
     Inr (example_store\<lparr>headers := (headers example_store)
            (0x1000 := (headers example_store 0x1000)\<lparr>mark_bit := True\<rparr>)\<rparr>,
          example_state\<lparr>marking_worklist :=
            [\<lparr>base_object_payload = 0x1008, callback = 0x7003\<rparr>]\<rparr>) \<and>
   0x40000 \<in> set (page_objects (BasePage_FromPayload (example_env True) 0x6FFFF)) \<and>
   non_overlapping (example_env True) example_store
     (page_objects (BasePage_FromPayload (example_env True) 0x6FFFF)) \<and>
   unat (0x40000 :: Address) < unat (0x6FFFF :: Address) \<and>
   unat (0x6FFFF :: Address) < unat (0x40000 :: Address)
      + unat (object_size (example_env True) example_store 0x40000) \<and>
   DynamicallyMarkAddress (example_env True) example_store example_state 0x6FFFF =
     Inr (example_store\<lparr>headers := (headers example_store)
            (0x40000 := (headers example_store 0x40000)\<lparr>mark_bit := True\<rparr>)\<rparr>,
          example_state\<lparr>marking_worklist :=
            [\<lparr>base_object_payload = 0x40008, callback = 0x7006\<rparr>]\<rparr>)"
proof -
  have g1: "0x40000 \<in> set (page_objects (BasePage_FromPayload (example_env True) 0x6FFFF))"
    by (simp add: example_defs)
  have g2: "non_overlapping (example_env True) example_store
     (page_objects (BasePage_FromPayload (example_env True) 0x6FFFF))"
    by (simp add: example_defs)
  have g3: "unat (0x40000 :: Address) < unat (0x6FFFF :: Address)"
    by simp
  have g4: "unat (0x6FFFF :: Address) < unat (0x40000 :: Address)
      + unat (object_size (example_env True) example_store 0x40000)"
    by (simp add: example_defs object_size_def header_queries)
  have h1: "0x1000 \<in> set (page_objects (BasePage_FromPayload (example_env True) 0x101F))"
    by (simp add: example_defs)
  have h2: "non_overlapping (example_env True) example_store
     (page_objects (BasePage_FromPayload (example_env True) 0x101F))"
    by (simp add: example_defs apart_def object_size_def header_queries)
  have h3: "unat (0x1000 :: Address) < unat (0x101F :: Address)"
    by simp
  have h4: "unat (0x101F :: Address) < unat (0x1000 :: Address)
      + unat (object_size (example_env True) example_store 0x1000)"
    by (simp add: example_defs object_size_def header_queries)
  from DynamicallyMarkAddress_marks_containing_object [OF h1 h2 h3 h4, where ms = example_state]
    DynamicallyMarkAddress_marks_containing_object [OF g1 g2 g3 g4, where ms = example_state]
    h1 h2 h3 h4 g1 g2 g3 g4
  show ?thesis
    by (simp add: MarkNoPush_cases TryMarkAtomic_def header_queries Payload_def)
       (simp add: example_defs)
qed

subsection \<open>The marked-byte counter\<close>

text \<open>
  What each operation does to the counter and to the sizes in the store: an operation
  other than \<^verbatim>\<open>AccountMarkedBytes\<close> leaves the counter alone, and no operation changes a
  size field.
\<close>

lemma same_sizes_refl: "same_sizes st st"
  by (simp add: same_sizes_def)

lemma same_sizes_mark:
  "same_sizes st (st\<lparr>headers := (headers st)(header := (headers st header)\<lparr>mark_bit := True\<rparr>)\<rparr>)"
  by (simp add: same_sizes_def)

lemma same_sizes_invoked: "same_sizes st (st\<lparr>invoked := xs\<rparr>)"
  by (simp add: same_sizes_def)


lemma MarkNoPush_frame:
  "case MarkNoPush env st ms header of
     Inl f \<Rightarrow> debug_build env
   | Inr (marked, st') \<Rightarrow> same_sizes st st'"
  by (simp add: MarkNoPush_cases TryMarkAtomic_def same_sizes_refl same_sizes_mark)

lemma MarkAndPush_header_frame:
  "case MarkAndPush_header env st ms header desc of
     Inl f \<Rightarrow> debug_build env
   | Inr (st', ms') \<Rightarrow> marked_bytes ms' = marked_bytes ms \<and> same_sizes st st'"
  by (simp add: MarkAndPush_header_cases same_sizes_refl same_sizes_mark)

lemma MarkAndPush_object_frame:
  "case MarkAndPush_object env st ms object desc of
     Inl f \<Rightarrow> debug_build env
   | Inr (st', ms') \<Rightarrow> marked_bytes ms' = marked_bytes ms \<and> same_sizes st st'"
  using MarkAndPush_header_frame [where env = env and st = st and ms = ms and desc = desc
          and header = "FromPayload env (base_object_payload desc)"]
  by (simp add: MarkAndPush_object_def DCHECK_def and_then_def same_sizes_refl)

lemma MarkAndPush_header_only_frame:
  "case MarkAndPush_header_only env st ms header of
     Inl f \<Rightarrow> debug_build env
   | Inr (st', ms') \<Rightarrow> marked_bytes ms' = marked_bytes ms \<and> same_sizes st st'"
  unfolding MarkAndPush_header_only_def by (rule MarkAndPush_header_frame)

lemma DynamicallyMarkAddress_frame:
  "case DynamicallyMarkAddress env st ms address of
     Inl f \<Rightarrow> debug_build env \<or> f = NoObjectAtAddress
   | Inr (st', ms') \<Rightarrow> marked_bytes ms' = marked_bytes ms \<and> same_sizes st st'"
proof (cases "ObjectHeaderFromInnerAddress env st (BasePage_FromPayload env address) address")
  case None
  then show ?thesis by (simp add: DynamicallyMarkAddress_def)
next
  case (Some header)
  then show ?thesis
    by (simp add: DynamicallyMarkAddress_cases same_sizes_refl same_sizes_mark)
qed

lemma perform_frame:
  "case perform env (st, ms) call of
     Inl f \<Rightarrow> debug_build env \<or> f = NoObjectAtAddress
   | Inr (st', ms') \<Rightarrow>
       same_sizes st st' \<and>
       (case call of
          Call_AccountMarkedBytes header \<Rightarrow>
            marked_bytes ms' = marked_bytes ms + object_size env st header
        | _ \<Rightarrow> marked_bytes ms' = marked_bytes ms)"
proof (cases call)
  case (Call_MarkAndPush_object object desc)
  then show ?thesis
    using MarkAndPush_object_frame [where env = env and st = st and ms = ms and object = object and desc = desc] by (auto split: sum.splits)
next
  case (Call_MarkAndPush_header header desc)
  then show ?thesis
    using MarkAndPush_header_frame [where env = env and st = st and ms = ms and header = header and desc = desc] by (auto split: sum.splits)
next
  case (Call_MarkAndPush_header_only header)
  then show ?thesis
    using MarkAndPush_header_only_frame [where env = env and st = st and ms = ms and header = header] by (auto split: sum.splits)
next
  case (Call_MarkNoPush header)
  then show ?thesis
    using MarkNoPush_frame [where env = env and st = st and ms = ms and header = header] by (auto simp: and_then_def split: sum.splits)
next
  case (Call_DynamicallyMarkAddress address)
  then show ?thesis
    using DynamicallyMarkAddress_frame [where env = env and st = st and ms = ms and address = address] by (auto split: sum.splits)
next
  case (Call_RegisterWeakReferenceIfNeeded object desc weak_callback parameter)
  then show ?thesis
    by (simp add: RegisterWeakReferenceIfNeeded_def RegisterWeakCallback_def same_sizes_refl)
next
  case (Call_RegisterWeakCallback weak_callback object)
  then show ?thesis
    by (simp add: RegisterWeakCallback_def same_sizes_refl)
next
  case (Call_InvokeWeakRootsCallbackIfNeeded object desc weak_callback parameter)
  then show ?thesis
    by (simp add: InvokeWeakRootsCallbackIfNeeded_def same_sizes_refl same_sizes_invoked)
next
  case (Call_AccountMarkedBytes header)
  then show ?thesis
    by (simp add: AccountMarkedBytes_def object_size_def same_sizes_refl)
qed

text \<open>
  C10. Only \<^verbatim>\<open>AccountMarkedBytes\<close> modifies the marked-byte counter: every other public
  operation (the three forms of \<^verbatim>\<open>MarkAndPush\<close>, \<^verbatim>\<open>MarkNoPush\<close>,
  \<^verbatim>\<open>DynamicallyMarkAddress\<close>, \<^verbatim>\<open>RegisterWeakReferenceIfNeeded\<close>,
  \<^verbatim>\<open>RegisterWeakCallback\<close>, \<^verbatim>\<open>InvokeWeakRootsCallbackIfNeeded\<close>) returns with
  \<^verbatim>\<open>marked_bytes()\<close> unchanged; it fails to return only on a fatal check of a debug
  build, or where no known object contains the address to mark.
\<close>

theorem only_AccountMarkedBytes_changes_marked_bytes:
  assumes "\<forall>header. call \<noteq> Call_AccountMarkedBytes header"
  shows "case perform env (st, ms) call of
           Inl f \<Rightarrow> debug_build env \<or> f = NoObjectAtAddress
         | Inr (st', ms') \<Rightarrow> marked_bytes ms' = marked_bytes ms"
  using assms perform_frame [where env = env and st = st and ms = ms and call = call]
  by (cases call) (auto split: sum.splits prod.splits)

theorem only_AccountMarkedBytes_changes_marked_bytes_witness:
  "(\<forall>header. Call_MarkAndPush_header 0x1000 \<lparr>base_object_payload = 0x1008, callback = 0x7003\<rparr>
       \<noteq> Call_AccountMarkedBytes header) \<and>
   (case perform (example_env True) (example_store, example_state)
           (Call_MarkAndPush_header 0x1000 \<lparr>base_object_payload = 0x1008, callback = 0x7003\<rparr>) of
      Inl f \<Rightarrow> False
    | Inr (st', ms') \<Rightarrow>
        IsMarked (headers st' 0x1000) \<and> marked_bytes ms' = marked_bytes example_state) \<and>
   (case perform (example_env True) (example_store, example_state)
           (Call_AccountMarkedBytes 0x1000) of
      Inl f \<Rightarrow> False
    | Inr (st', ms') \<Rightarrow> marked_bytes ms' = marked_bytes example_state + 32)"
proof -
  have h: "\<forall>header. Call_MarkAndPush_header 0x1000
              \<lparr>base_object_payload = 0x1008, callback = 0x7003\<rparr>
            \<noteq> Call_AccountMarkedBytes header"
    by simp
  from only_AccountMarkedBytes_changes_marked_bytes
         [OF h, where env = "example_env True" and st = example_store and ms = example_state]
  show ?thesis
    by (simp add: MarkAndPush_header_cases AccountMarkedBytes_def header_queries example_defs)
qed


















end
